theory Spec2Isabelle
  imports Complex_Main
begin

section \<open>Strings and paths\<close>

text \<open>
  Python strings are modelled as \<^typ>\<open>string\<close>. The model covers ASCII text: case
  conversion touches the letters A-Z and a-z only, white space is the ASCII white space of
  \<^verbatim>\<open>str.isspace\<close>, and line boundaries are the ASCII ones of \<^verbatim>\<open>str.splitlines\<close>.
  Paths are POSIX paths with the \<^verbatim>\<open>pathlib\<close> rules of Python 3.12.
\<close>

definition ascii_uppercase :: string where
  "ascii_uppercase = ''ABCDEFGHIJKLMNOPQRSTUVWXYZ''"

definition ascii_lowercase :: string where
  "ascii_lowercase = ''abcdefghijklmnopqrstuvwxyz''"

definition lower_char :: "char \<Rightarrow> char" where
  "lower_char c = (case map_of (zip ascii_uppercase ascii_lowercase) c of Some d \<Rightarrow> d | None \<Rightarrow> c)"

definition upper_char :: "char \<Rightarrow> char" where
  "upper_char c = (case map_of (zip ascii_lowercase ascii_uppercase) c of Some d \<Rightarrow> d | None \<Rightarrow> c)"

text \<open>\<^verbatim>\<open>str.lower\<close>, \<^verbatim>\<open>str.capitalize\<close>\<close>

definition lower :: "string \<Rightarrow> string" where
  "lower s = map lower_char s"

definition capitalize :: "string \<Rightarrow> string" where
  "capitalize s = (case s of [] \<Rightarrow> [] | c # cs \<Rightarrow> upper_char c # lower cs)"

definition isspace :: "char \<Rightarrow> bool" where
  "isspace c = (c \<in> set [CHR 0x09, CHR 0x0A, CHR 0x0B, CHR 0x0C, CHR 0x0D,
                          CHR 0x1C, CHR 0x1D, CHR 0x1E, CHR 0x1F, CHR 0x20])"

text \<open>\<^verbatim>\<open>str.strip()\<close>\<close>

definition strip :: "string \<Rightarrow> string" where
  "strip s = rev (dropWhile isspace (rev (dropWhile isspace s)))"

text \<open>\<^verbatim>\<open>s.startswith(p)\<close> and \<^verbatim>\<open>sub in s\<close>\<close>

fun startswith :: "string \<Rightarrow> string \<Rightarrow> bool" where
  "startswith s [] = True"
| "startswith [] (p # ps) = False"
| "startswith (c # cs) (p # ps) = (c = p \<and> startswith cs ps)"

fun contains :: "string \<Rightarrow> string \<Rightarrow> bool" where
  "contains sub [] = (sub = [])"
| "contains sub (c # cs) = (startswith (c # cs) sub \<or> contains sub cs)"

text \<open>\<^verbatim>\<open>s.split(sep)\<close> for a separator of one character: empty pieces are kept.\<close>

fun split_on :: "char \<Rightarrow> string \<Rightarrow> string list" where
  "split_on sep [] = [[]]"
| "split_on sep (c # cs) =
     (if c = sep then [] # split_on sep cs
      else (case split_on sep cs of [] \<Rightarrow> [[c]] | p # ps \<Rightarrow> (c # p) # ps))"

text \<open>\<^verbatim>\<open>s.rfind(c)\<close>: the index of the last occurrence, \<open>None\<close> for Python's -1.\<close>

fun rfind :: "char \<Rightarrow> string \<Rightarrow> nat option" where
  "rfind x [] = None"
| "rfind x (c # cs) =
     (case rfind x cs of Some i \<Rightarrow> Some (Suc i) | None \<Rightarrow> if c = x then Some 0 else None)"

text \<open>
  \<^verbatim>\<open>Path(p).name\<close>: the last component, where empty components and \<^verbatim>\<open>.\<close> are dropped.
  \<^verbatim>\<open>.stem\<close> and \<^verbatim>\<open>.suffix\<close> cut the name at its last dot when that dot is neither the
  first nor the last character.
\<close>

definition path_name :: "string \<Rightarrow> string" where
  "path_name p =
     (case rev (filter (\<lambda>x. x \<noteq> [] \<and> x \<noteq> ''.'') (split_on CHR ''/'' p)) of
        [] \<Rightarrow> [] | n # _ \<Rightarrow> n)"

definition stem :: "string \<Rightarrow> string" where
  "stem p =
     (let name = path_name p in
      case rfind CHR ''.'' name of
        None \<Rightarrow> name
      | Some i \<Rightarrow> if 0 < i \<and> Suc i < length name then take i name else name)"

definition suffix :: "string \<Rightarrow> string" where
  "suffix p =
     (let name = path_name p in
      case rfind CHR ''.'' name of
        None \<Rightarrow> []
      | Some i \<Rightarrow> if 0 < i \<and> Suc i < length name then drop i name else [])"

text \<open>\<^verbatim>\<open>os.path.join(a, b)\<close> for two components.\<close>

definition path_join :: "string \<Rightarrow> string \<Rightarrow> string" where
  "path_join a b =
     (if startswith b ''/'' then b
      else if a = [] \<or> last a = CHR ''/'' then a @ b
      else a @ ''/'' @ b)"

text \<open>\<^verbatim>\<open>str(n)\<close> for an integer.\<close>

function str_nat :: "nat \<Rightarrow> string" where
  "str_nat n = (if n < 10 then [''0123456789'' ! n] else str_nat (n div 10) @ [''0123456789'' ! (n mod 10)])"
  by pat_completeness auto
termination
  by (relation "measure id") auto

declare str_nat.simps [simp del]

definition str_int :: "int \<Rightarrow> string" where
  "str_int i = (if i < 0 then ''-'' @ str_nat (nat (- i)) else str_nat (nat i))"

text \<open>\<^verbatim>\<open>sep.join(xs)\<close>\<close>

fun join :: "string \<Rightarrow> string list \<Rightarrow> string" where
  "join sep [] = []"
| "join sep [x] = x"
| "join sep (x # y # ys) = x @ sep @ join sep (y # ys)"

section \<open>Constants\<close>

text \<open>The dictionaries keep their insertion order, which is the order of iteration.\<close>

definition SUPPORTED_EXTENSIONS :: "(string \<times> string list) list" where
  "SUPPORTED_EXTENSIONS =
     [(''video'', [''.mkv'', ''.mp4'', ''.avi'', ''.webm'', ''.mov'']),
      (''audio'', [''.aac'', ''.ac3'', ''.dts'', ''.mp3'', ''.opus'', ''.flac'', ''.wav'']),
      (''subtitles'', [''.srt'', ''.ass'', ''.ssa'', ''.vtt'', ''.pgs'', ''.sub''])]"

definition LANGUAGE_CODES :: "(string \<times> string list) list" where
  "LANGUAGE_CODES =
     [(''hi'', [''hi'', ''hin'', ''hindi'']),
      (''en'', [''en'', ''eng'', ''english'']),
      (''ta'', [''ta'', ''tam'', ''tamil'']),
      (''bn'', [''bn'', ''ben'', ''bengali'']),
      (''mr'', [''mr'', ''mar'', ''marathi'']),
      (''gu'', [''gu'', ''guj'', ''gujarati'']),
      (''kn'', [''kn'', ''kan'', ''kannada'']),
      (''ml'', [''ml'', ''mal'', ''malayalam'']),
      (''te'', [''te'', ''tel'', ''telugu'']),
      (''pa'', [''pa'', ''pan'', ''punjabi'']),
      (''or'', [''or'', ''ori'', ''odia'']),
      (''as'', [''as'', ''asm'', ''assamese'']),
      (''ne'', [''ne'', ''nep'', ''nepali'']),
      (''sa'', [''sa'', ''san'', ''sanskrit'']),
      (''ur'', [''ur'', ''urd'', ''urdu''])]"

section \<open>Language detection\<close>

text \<open>
  \<^verbatim>\<open>detect_language\<close>: the outer loop runs over the language table, the inner loop over
  the variants of one language; the first variant found among the parts returns.
\<close>

fun scan_variants :: "string list \<Rightarrow> string list \<Rightarrow> bool" where
  "scan_variants parts [] = False"
| "scan_variants parts (variant # variants) =
     (if variant \<in> set parts then True else scan_variants parts variants)"

fun scan_languages :: "string list \<Rightarrow> (string \<times> string list) list \<Rightarrow> string option" where
  "scan_languages parts [] = None"
| "scan_languages parts ((lang_code, variants) # rest) =
     (if scan_variants parts variants then Some lang_code else scan_languages parts rest)"

definition name_parts :: "string \<Rightarrow> string list" where
  "name_parts filename = split_on CHR ''.'' (stem (lower filename))"

definition detect_language :: "string \<Rightarrow> string option" where
  "detect_language filename = scan_languages (name_parts filename) LANGUAGE_CODES"

section \<open>Errors, messages and the outside world\<close>

datatype error =
    RuntimeError string
  | ValueError string
  | KeyError string
  | IndexError
  | ZeroDivisionError
  | RPCError string

text \<open>
  A chat message carries at most one of \<^verbatim>\<open>document\<close>, \<^verbatim>\<open>video\<close> and \<^verbatim>\<open>audio\<close>; each
  media object has a file name (possibly missing) and a declared size.
\<close>

record media =
  media_file_name :: "string option"
  media_file_size :: int

record tg_message =
  from_user_id :: int
  document :: "media option"
  video :: "media option"
  audio :: "media option"

text \<open>
  What a handler sends back. A button is its label and its callback data; texts are the
  source's without their leading pictograph, a text of several lines cut to its first.
\<close>

type_synonym button = "string \<times> string"

datatype out =
    Reply_text string
  | Reply_markup string "button list list"
  | Answer string
  | Edit_text string "button list list"

text \<open>
  The collaborators of the bot: the transport's download of a message's file (with what
  \<^verbatim>\<open>download_file\<close> does around it), a child process run to completion, giving
  return code, standard output and standard error, and the file system's
  \<^verbatim>\<open>os.path.exists\<close> after the child process has ended.

  A call of the transport can raise. The sessions a handler leaves depend on that at one
  place only: \<^verbatim>\<open>remove_last_file\<close> awaits \<^verbatim>\<open>callback_query.answer\<close> after it has taken the
  file off the list and before it deletes an emptied session. The world gives the outcome
  of that call for its text, \<open>None\<close> when it returns and the exception when it raises.
  Every other call of the transport comes after the handler's last access to the sessions,
  or in a branch that leaves them as they are; for those, \<open>out\<close> lists what the handler
  sends when the calls return.
\<close>

type_synonym proc_result = "int \<times> string \<times> string"

record world =
  fetch :: "tg_message \<Rightarrow> error + string"
  run_process :: "string list \<Rightarrow> proc_result"
  path_exists :: "string \<Rightarrow> bool"
  answer_after_pop :: "string \<Rightarrow> error option"

section \<open>Sessions\<close>

record staged_file =
  message :: tg_message
  file_name :: string
  file_type :: string
  file_ext :: string
  language :: "string option"

record session =
  files :: "staged_file list"
  current_operation :: "string option"
  processing :: bool

type_synonym sessions = "int \<rightharpoonup> session"

text \<open>The file name of a message, as \<^verbatim>\<open>handle_file_input\<close> and \<^verbatim>\<open>download_file\<close> read it.\<close>

definition message_file_name :: "tg_message \<Rightarrow> string option" where
  "message_file_name m =
     (case document m of
        Some d \<Rightarrow> media_file_name d
      | None \<Rightarrow>
          (case video m of
             Some v \<Rightarrow> media_file_name v
           | None \<Rightarrow> (case audio m of Some a \<Rightarrow> media_file_name a | None \<Rightarrow> None)))"

text \<open>The loop over \<^verbatim>\<open>SUPPORTED_EXTENSIONS.items()\<close> with its \<^verbatim>\<open>break\<close>.\<close>

fun lookup_file_type :: "string \<Rightarrow> (string \<times> string list) list \<Rightarrow> string option" where
  "lookup_file_type e [] = None"
| "lookup_file_type e ((typ, exts) # rest) =
     (if e \<in> set exts then Some typ else lookup_file_type e rest)"

definition mux_merge_rows :: "button list list" where
  "mux_merge_rows =
     [[(''Mux (Combine Files)'', ''mux_files'')],
      [(''Merge (Append Files)'', ''merge_files'')]]"

definition common_rows :: "button list list" where
  "common_rows =
     [[(''Add Another File'', ''add_another_file''), (''View Added Files'', ''view_files'')],
      [(''Remove Last File'', ''remove_last_file''), (''Cancel'', ''cancel_operation'')]]"

definition show_action_buttons :: "session \<Rightarrow> out" where
  "show_action_buttons s =
     (let buttons =
        (if length (files s) = 1 then
           (if file_type (files s ! 0) = ''video''
            then [[(''Extract Tracks'', ''extract_tracks'')],
                  [(''Add/Edit Metadata'', ''edit_metadata'')]]
            else []) @ mux_merge_rows
         else mux_merge_rows)
      in Reply_markup ''Choose an action:'' (buttons @ common_rows))"

definition new_session :: session where
  "new_session = \<lparr>files = [], current_operation = None, processing = False\<rparr>"

text \<open>
  \<^verbatim>\<open>handle_file_input\<close>, with the configured \<^verbatim>\<open>MAX_FILE_SIZE\<close> as its first argument.
  The size is looked at for a document only.
\<close>

definition handle_file_input :: "int \<Rightarrow> sessions \<Rightarrow> tg_message \<Rightarrow> sessions \<times> out list" where
  "handle_file_input MAX_FILE_SIZE us m =
     (let user_id = from_user_id m in
      if (case document m of Some d \<Rightarrow> media_file_size d > MAX_FILE_SIZE | None \<Rightarrow> False)
      then (us, [Reply_text (''File is too large! Max size is ''
                              @ str_int (MAX_FILE_SIZE div 1000000) @ ''MB.'')])
      else
        (case message_file_name m of
           None \<Rightarrow> (us, [Reply_text ''Could not determine file name.''])
         | Some fname \<Rightarrow>
             if fname = [] then (us, [Reply_text ''Could not determine file name.''])
             else
               (let fext = lower (suffix fname) in
                case lookup_file_type fext SUPPORTED_EXTENSIONS of
                  None \<Rightarrow> (us, [Reply_text (''Unsupported file type: '' @ fext)])
                | Some ftype \<Rightarrow>
                    (let s = (case us user_id of None \<Rightarrow> new_session | Some s \<Rightarrow> s);
                         s' = s\<lparr>files := files s @
                                [\<lparr>message = m, file_name = fname, file_type = ftype,
                                  file_ext = fext, language = detect_language fname\<rparr>]\<rparr>
                     in (us(user_id \<mapsto> s'), [show_action_buttons s'])))))"

definition handle_start :: "sessions \<Rightarrow> tg_message \<Rightarrow> sessions \<times> out list" where
  "handle_start us m = (us, [Reply_text ''Welcome to MKVToolNix Bot!''])"

definition handle_cancel :: "sessions \<Rightarrow> tg_message \<Rightarrow> sessions \<times> out list" where
  "handle_cancel us m =
     (let user_id = from_user_id m in
      case us user_id of
        Some _ \<Rightarrow> (us(user_id := None),
                   [Reply_text ''Current operation cancelled. You can start a new one.''])
      | None \<Rightarrow> (us, [Reply_text ''No active operation to cancel.'']))"

definition handle_reset :: "sessions \<Rightarrow> tg_message \<Rightarrow> sessions \<times> out list" where
  "handle_reset us m =
     (let user_id = from_user_id m in
      case us user_id of
        Some _ \<Rightarrow> (us(user_id := None), [Reply_text ''Session reset. You can start fresh now.''])
      | None \<Rightarrow> (us, [Reply_text ''No active session to reset.'']))"

section \<open>Probing a container\<close>

text \<open>
  \<^verbatim>\<open>str.splitlines()\<close>: a line ends at a line boundary, CR LF counts as one boundary, and
  no empty line follows the last boundary.
\<close>

definition is_linebreak :: "char \<Rightarrow> bool" where
  "is_linebreak c = (c \<in> set [CHR 0x0A, CHR 0x0B, CHR 0x0C, CHR 0x0D, CHR 0x1C, CHR 0x1D, CHR 0x1E])"

fun splitlines_from :: "string \<Rightarrow> string \<Rightarrow> string list" where
  "splitlines_from cur [] = (if cur = [] then [] else [rev cur])"
| "splitlines_from cur (c # cs) =
     (if c = CHR 0x0D then
        (case cs of
           [] \<Rightarrow> [rev cur]
         | d # ds \<Rightarrow> if d = CHR 0x0A then rev cur # splitlines_from [] ds
                     else rev cur # splitlines_from [] (d # ds))
      else if is_linebreak c then rev cur # splitlines_from [] cs
      else splitlines_from (c # cur) cs)"

definition splitlines :: "string \<Rightarrow> string list" where
  "splitlines s = splitlines_from [] s"

text \<open>A track is the dictionary the parser builds: \<^verbatim>\<open>id\<close> always, the other keys when seen.\<close>

record track =
  track_id :: nat
  track_type :: "string option"
  track_codec :: "string option"
  track_language :: "string option"

text \<open>\<^verbatim>\<open>line.split(":")[1]\<close>\<close>

definition second_field :: "string \<Rightarrow> error + string" where
  "second_field line = (case split_on CHR '':'' line of _ # v # _ \<Rightarrow> Inr v | _ \<Rightarrow> Inl IndexError)"

definition is_track_start :: "string \<Rightarrow> bool" where
  "is_track_start raw = startswith (strip raw) ''+ A track''"

text \<open>One round of the loop over the lines; the state is \<^verbatim>\<open>tracks\<close> and \<^verbatim>\<open>current_track\<close>.\<close>

definition parse_line :: "track list \<times> track option \<Rightarrow> string \<Rightarrow> error + track list \<times> track option" where
  "parse_line st raw =
     (let line = strip raw; tracks = fst st; current_track = snd st in
      if startswith line ''+ A track'' then
        (let tracks' = (case current_track of Some t \<Rightarrow> tracks @ [t] | None \<Rightarrow> tracks)
         in Inr (tracks', Some \<lparr>track_id = length tracks' + 1, track_type = None,
                                track_codec = None, track_language = None\<rparr>))
      else
        (case current_track of
           None \<Rightarrow> Inr st
         | Some t \<Rightarrow>
             if contains ''Track type:'' line then
               (case second_field line of
                  Inl e \<Rightarrow> Inl e
                | Inr v \<Rightarrow> Inr (tracks, Some (t\<lparr>track_type := Some (lower (strip v))\<rparr>)))
             else if contains ''Codec ID:'' line then
               (case second_field line of
                  Inl e \<Rightarrow> Inl e
                | Inr v \<Rightarrow> Inr (tracks, Some (t\<lparr>track_codec := Some (strip v)\<rparr>)))
             else if contains ''Language:'' line then
               (case second_field line of
                  Inl e \<Rightarrow> Inl e
                | Inr v \<Rightarrow> Inr (tracks, Some (t\<lparr>track_language := Some (strip v)\<rparr>)))
             else Inr st))"

fun parse_lines :: "track list \<times> track option \<Rightarrow> string list \<Rightarrow> error + track list \<times> track option" where
  "parse_lines st [] = Inr st"
| "parse_lines st (l # ls) =
     (case parse_line st l of Inl e \<Rightarrow> Inl e | Inr st' \<Rightarrow> parse_lines st' ls)"

definition close_last :: "track list \<times> track option \<Rightarrow> track list" where
  "close_last st = (case snd st of Some t \<Rightarrow> fst st @ [t] | None \<Rightarrow> fst st)"

definition parse_mkvinfo :: "string \<Rightarrow> error + track list" where
  "parse_mkvinfo text =
     (case parse_lines ([], None) (splitlines text) of
        Inl e \<Rightarrow> Inl e
      | Inr st \<Rightarrow> Inr (close_last st))"

definition get_mkv_tracks :: "world \<Rightarrow> string \<Rightarrow> error + track list" where
  "get_mkv_tracks w file_path =
     (case run_process w [''mkvinfo'', file_path] of
        (returncode, stdout, stderr) \<Rightarrow>
          if returncode \<noteq> 0 then Inl (RuntimeError (''mkvinfo failed: '' @ stderr))
          else parse_mkvinfo stdout)"

text \<open>The number of track-start markers of a report.\<close>

definition track_starts :: "string \<Rightarrow> nat" where
  "track_starts text = length (filter is_track_start (splitlines text))"

section \<open>Extracting tracks\<close>

definition extract_extensions :: "string list" where
  "extract_extensions = [''.mkv'', ''.mp4'', ''.aac'', ''.srt'', ''.ass'']"

definition extract_command :: "string \<Rightarrow> int list \<Rightarrow> string \<Rightarrow> string list" where
  "extract_command file_path track_ids output_dir =
     foldl (\<lambda>command tid.
              command @ [str_int tid @ '':'' @ path_join output_dir (''track_'' @ str_int tid)])
       [''mkvextract'', file_path, ''tracks''] track_ids"

definition candidates :: "string \<Rightarrow> int \<Rightarrow> string list" where
  "candidates output_dir tid =
     map (\<lambda>ext. path_join output_dir (''track_'' @ str_int tid @ ext)) extract_extensions"

text \<open>The inner loop with its \<^verbatim>\<open>break\<close>, and the outer loop over the requested ids.\<close>

fun first_existing :: "(string \<Rightarrow> bool) \<Rightarrow> string list \<Rightarrow> string option" where
  "first_existing ex [] = None"
| "first_existing ex (p # ps) = (if ex p then Some p else first_existing ex ps)"

fun collect_extracted :: "world \<Rightarrow> string \<Rightarrow> string list \<Rightarrow> int list \<Rightarrow> string list" where
  "collect_extracted w output_dir extracted_files [] = extracted_files"
| "collect_extracted w output_dir extracted_files (tid # tids) =
     (case first_existing (path_exists w) (candidates output_dir tid) of
        Some p \<Rightarrow> collect_extracted w output_dir (extracted_files @ [p]) tids
      | None \<Rightarrow> collect_extracted w output_dir extracted_files tids)"

definition extract_tracks :: "world \<Rightarrow> string \<Rightarrow> int list \<Rightarrow> string \<Rightarrow> error + string list" where
  "extract_tracks w file_path track_ids output_dir =
     (case run_process w (extract_command file_path track_ids output_dir) of
        (returncode, stdout, stderr) \<Rightarrow>
          if returncode \<noteq> 0 then Inl (RuntimeError (''mkvextract failed: '' @ stderr))
          else Inr (collect_extracted w output_dir [] track_ids))"

section \<open>Combining files\<close>

text \<open>
  The option bag maps a key to a string; a value is truthy when it is not empty.
  \<^verbatim>\<open>mux_command\<close> is the command list \<^verbatim>\<open>mux_files\<close> builds before it starts the process.
\<close>

definition mux_command :: "string list \<Rightarrow> string \<Rightarrow> (string \<rightharpoonup> string) \<Rightarrow> string list" where
  "mux_command file_paths output_file options =
     (let command = [''mkvmerge'', ''-o'', output_file];
          command = foldl (\<lambda>command file. command @ [file]) command file_paths
      in case options ''title'' of
           None \<Rightarrow> command
         | Some title \<Rightarrow> if title = [] then command else command @ [''--title'', title])"

definition mux_files :: "world \<Rightarrow> string list \<Rightarrow> string \<Rightarrow> (string \<rightharpoonup> string) \<Rightarrow> error + string" where
  "mux_files w file_paths output_file options =
     (case run_process w (mux_command file_paths output_file options) of
        (returncode, stdout, stderr) \<Rightarrow>
          if returncode \<noteq> 0 then Inl (RuntimeError (''mkvmerge failed: '' @ stderr))
          else Inr output_file)"

section \<open>Download progress\<close>

text \<open>
  The closure \<^verbatim>\<open>progress(current, total)\<close> of \<^verbatim>\<open>download_file\<close>, the total written
  \<open>total_bytes\<close>. Its captured variables are the state; \<^verbatim>\<open>start_time\<close> and the clock reading \<^verbatim>\<open>now\<close> are arguments. Clock
  readings and quotients are rationals here: the source computes them in floating point,
  which rounds the quotients, while a division by zero raises in both.
\<close>

record progress_state =
  last_update :: rat
  downloaded :: int

record progress_update =
  percent :: rat
  speed :: rat
  size_mb :: rat
  total_mb :: rat

definition progress ::
  "rat \<Rightarrow> rat \<Rightarrow> progress_state \<Rightarrow> int \<Rightarrow> int \<Rightarrow> error + progress_state \<times> progress_update option" where
  "progress start_time now st current total_bytes =
     (let st = st\<lparr>downloaded := current\<rparr> in
      if now - last_update st \<ge> 1 then
        (if now - start_time = 0 then Inl ZeroDivisionError
         else
           (let spd = (of_int current / (now - start_time)) / 1024 / 1024 in
            if total_bytes = 0 then Inl ZeroDivisionError
            else
              (let pct = (of_int current / of_int total_bytes) * 100 in
               Inr (st\<lparr>last_update := now\<rparr>,
                    Some \<lparr>percent = pct, speed = spd,
                          size_mb = of_int current / 1024 / 1024,
                          total_mb = of_int total_bytes / 1024 / 1024\<rparr>))))
      else Inr (st, None))"

section \<open>Callback handlers\<close>

text \<open>
  A callback handler returns the sessions as it leaves them together with either the
  exception it raises or what it sent. \<^verbatim>\<open>handle_callback_query\<close> catches every exception
  and answers with a notice; what the handler wrote to the sessions before stays.
\<close>

definition download_file :: "world \<Rightarrow> tg_message \<Rightarrow> error + string" where
  "download_file w m =
     (case message_file_name m of
        None \<Rightarrow> Inl (ValueError ''Could not determine file name'')
      | Some fname \<Rightarrow>
          if fname = [] then Inl (ValueError ''Could not determine file name'')
          else if document m = None \<and> video m = None \<and> audio m = None
          then Inl (ValueError ''Unsupported message type'')
          else fetch w m)"

text \<open>The keyboard of the track selection: \<^verbatim>\<open>track['type']\<close> raises for a track with no type.\<close>

fun track_buttons :: "track list \<Rightarrow> error + button list list" where
  "track_buttons [] = Inr []"
| "track_buttons (t # ts) =
     (case track_type t of
        None \<Rightarrow> Inl (KeyError ''type'')
      | Some ty \<Rightarrow>
          (case track_buttons ts of
             Inl e \<Rightarrow> Inl e
           | Inr rows \<Rightarrow>
               Inr ([(capitalize ty @ '' '' @ str_nat (track_id t) @ '': ''
                       @ (case track_codec t of Some c \<Rightarrow> c | None \<Rightarrow> [])
                       @ '' '' @ (case track_language t of Some l \<Rightarrow> l | None \<Rightarrow> []),
                      ''extract_track_'' @ str_nat (track_id t))] # rows)))"

definition handle_extract_tracks :: "world \<Rightarrow> sessions \<Rightarrow> int \<Rightarrow> sessions \<times> (error + out list)" where
  "handle_extract_tracks w us user_id =
     (case us user_id of
        None \<Rightarrow> (us, Inl (KeyError ''user_id''))
      | Some s \<Rightarrow>
          if length (files s) \<noteq> 1 \<or> file_type (files s ! 0) \<noteq> ''video''
          then (us, Inr [Answer ''Please send a single video file first.''])
          else
            (us(user_id \<mapsto> s\<lparr>current_operation := Some ''extract_tracks''\<rparr>),
             (case download_file w (message (files s ! 0)) of
                Inl e \<Rightarrow> Inl e
              | Inr file_path \<Rightarrow>
                  (case get_mkv_tracks w file_path of
                     Inl e \<Rightarrow> Inl e
                   | Inr tracks \<Rightarrow>
                       (case track_buttons tracks of
                          Inl e \<Rightarrow> Inl e
                        | Inr rows \<Rightarrow>
                            Inr [Edit_text ''Select tracks to extract:''
                                   (rows @ [[(''Extract All'', ''extract_all_tracks''),
                                             (''Cancel'', ''cancel_operation'')]])])))))"

definition mux_rows :: "button list list" where
  "mux_rows =
     [[(''Set Output Title'', ''set_output_title''), (''Set Track Names'', ''set_track_names'')],
      [(''Set Languages'', ''set_languages''), (''Set Default/Forced'', ''set_default_forced'')],
      [(''Start Muxing'', ''start_muxing''), (''Cancel'', ''cancel_operation'')]]"

definition merge_rows :: "button list list" where
  "merge_rows =
     [[(''Set Output Title'', ''set_output_title''), (''Set Track Names'', ''set_track_names'')],
      [(''Start Merging'', ''start_merging''), (''Cancel'', ''cancel_operation'')]]"

definition metadata_rows :: "button list list" where
  "metadata_rows =
     [[(''Change Title'', ''change_title''), (''Change Track Names'', ''change_track_names'')],
      [(''Change Languages'', ''change_languages''), (''Set Default/Forced'', ''set_default_forced'')],
      [(''Apply Changes'', ''apply_metadata_changes''), (''Cancel'', ''cancel_operation'')]]"

definition handle_mux_files :: "sessions \<Rightarrow> int \<Rightarrow> sessions \<times> (error + out list)" where
  "handle_mux_files us user_id =
     (case us user_id of
        None \<Rightarrow> (us, Inl (KeyError ''user_id''))
      | Some s \<Rightarrow>
          if length (files s) < 2
          then (us, Inr [Answer ''Please send at least 2 files to mux.''])
          else (us(user_id \<mapsto> s\<lparr>current_operation := Some ''mux_files''\<rparr>),
                Inr [Edit_text ''Configure muxing options:'' mux_rows]))"

definition handle_merge_files :: "sessions \<Rightarrow> int \<Rightarrow> sessions \<times> (error + out list)" where
  "handle_merge_files us user_id =
     (case us user_id of
        None \<Rightarrow> (us, Inl (KeyError ''user_id''))
      | Some s \<Rightarrow>
          if length (files s) < 2
          then (us, Inr [Answer ''Please send at least 2 files to merge.''])
          else (us(user_id \<mapsto> s\<lparr>current_operation := Some ''merge_files''\<rparr>),
                Inr [Edit_text ''Configure merging options:'' merge_rows]))"

definition handle_edit_metadata :: "sessions \<Rightarrow> int \<Rightarrow> sessions \<times> (error + out list)" where
  "handle_edit_metadata us user_id =
     (case us user_id of
        None \<Rightarrow> (us, Inl (KeyError ''user_id''))
      | Some s \<Rightarrow>
          if length (files s) \<noteq> 1 \<or> file_type (files s ! 0) \<noteq> ''video''
          then (us, Inr [Answer ''Please send a single video file first.''])
          else (us(user_id \<mapsto> s\<lparr>current_operation := Some ''edit_metadata''\<rparr>),
                Inr [Edit_text ''Select metadata to edit:'' metadata_rows]))"

text \<open>The numbered lines of \<^verbatim>\<open>show_added_files\<close>, counted from \<open>i\<close>.\<close>

fun files_info :: "nat \<Rightarrow> staged_file list \<Rightarrow> string list" where
  "files_info i [] = []"
| "files_info i (f # fs) =
     (str_nat i @ ''. '' @ file_name f
        @ (case language f of
             None \<Rightarrow> []
           | Some l \<Rightarrow> if l = [] then [] else '' (Language: '' @ l @ '')''))
     # files_info (Suc i) fs"

definition show_added_files :: "sessions \<Rightarrow> int \<Rightarrow> sessions \<times> (error + out list)" where
  "show_added_files us user_id =
     (case us user_id of
        None \<Rightarrow> (us, Inl (KeyError ''user_id''))
      | Some s \<Rightarrow>
          (us, Inr [Edit_text (''Added files:'' @ [CHR 0x0A, CHR 0x0A]
                               @ join [CHR 0x0A] (files_info 1 (files s)))
                      [[(''Back'', ''back_to_actions'')]]]))"

text \<open>
  \<^verbatim>\<open>remove_last_file\<close>: \<^verbatim>\<open>pop()\<close> takes the last element of the list; the session's other
  fields are not written. The handler then awaits the answer that names the removed file.
  When that call raises, the exception leaves the handler with the file taken off and the
  session still in place, whether or not a file remains; when it returns, an emptied
  session is deleted.
\<close>

definition remove_last_file :: "world \<Rightarrow> sessions \<Rightarrow> int \<Rightarrow> sessions \<times> (error + out list)" where
  "remove_last_file w us user_id =
     (case us user_id of
        None \<Rightarrow> (us, Inl (KeyError ''user_id''))
      | Some s \<Rightarrow>
          if files s = [] then (us, Inr [Answer ''No files to remove.''])
          else
            (let removed_file = last (files s);
                 s' = s\<lparr>files := butlast (files s)\<rparr>;
                 us' = us(user_id \<mapsto> s')
             in case answer_after_pop w (''Removed: '' @ file_name removed_file) of
                  Some e \<Rightarrow> (us', Inl e)
                | None \<Rightarrow>
                    if files s' = []
                    then (us'(user_id := None),
                          Inr [Answer (''Removed: '' @ file_name removed_file),
                               Edit_text ''All files removed. Send a file to start again.'' []])
                    else (us',
                          Inr [Answer (''Removed: '' @ file_name removed_file),
                               show_action_buttons s'])))"

definition handle_callback_query :: "world \<Rightarrow> sessions \<Rightarrow> int \<Rightarrow> string \<Rightarrow> sessions \<times> out list" where
  "handle_callback_query w us user_id data =
     (case us user_id of
        None \<Rightarrow> (us, [Answer ''Session expired. Please send a file again.''])
      | Some _ \<Rightarrow>
          (case (if data = ''extract_tracks'' then handle_extract_tracks w us user_id
                 else if data = ''mux_files'' then handle_mux_files us user_id
                 else if data = ''merge_files'' then handle_merge_files us user_id
                 else if data = ''edit_metadata'' then handle_edit_metadata us user_id
                 else if data = ''add_another_file'' then (us, Inr [Answer ''Please send the next file.''])
                 else if data = ''view_files'' then show_added_files us user_id
                 else if data = ''remove_last_file'' then remove_last_file w us user_id
                 else if data = ''cancel_operation''
                 then (us(user_id := None), Inr [Edit_text ''Operation cancelled.'' []])
                 else (us, Inr [Answer ''Unknown action.'']))
           of (us', Inl e) \<Rightarrow> (us', [Answer ''An error occurred. Please try again.''])
            | (us', Inr outs) \<Rightarrow> (us', outs)))"

section \<open>Events\<close>

text \<open>
  The events the handlers are registered for. A run starts from given sessions and handles
  one event after the other, each in the world it meets and each handler ending before the
  next begins. This is one of the schedules of the event loop, which may also start a
  handler while another awaits; a run therefore shows that sessions can be reached, and is
  not used to show that sessions cannot.
\<close>

datatype event =
    Start tg_message
  | Cancel tg_message
  | Reset tg_message
  | File_input tg_message
  | Callback_query int string

fun handle_event :: "int \<Rightarrow> world \<Rightarrow> sessions \<Rightarrow> event \<Rightarrow> sessions \<times> out list" where
  "handle_event MAX_FILE_SIZE w us (Start m) = handle_start us m"
| "handle_event MAX_FILE_SIZE w us (Cancel m) = handle_cancel us m"
| "handle_event MAX_FILE_SIZE w us (Reset m) = handle_reset us m"
| "handle_event MAX_FILE_SIZE w us (File_input m) = handle_file_input MAX_FILE_SIZE us m"
| "handle_event MAX_FILE_SIZE w us (Callback_query user_id data) =
     handle_callback_query w us user_id data"

fun run :: "int \<Rightarrow> sessions \<Rightarrow> (world \<times> event) list \<Rightarrow> sessions" where
  "run MAX_FILE_SIZE us [] = us"
| "run MAX_FILE_SIZE us ((w, ev) # evs) =
     run MAX_FILE_SIZE (fst (handle_event MAX_FILE_SIZE w us ev)) evs"

section \<open>The stated detection order\<close>

text \<open>
  The language detection as the specification words it, for comparison with
  \<^const>\<open>detect_language\<close>: the parts are scanned from the left, and the first part that
  is a variant of some language gives that language.
\<close>

definition variant_language :: "string \<Rightarrow> string option" where
  "variant_language seg = map_option fst (find (\<lambda>lv. seg \<in> set (snd lv)) LANGUAGE_CODES)"

fun leftmost_language :: "string list \<Rightarrow> string option" where
  "leftmost_language [] = None"
| "leftmost_language (seg # segs) =
     (case variant_language seg of Some c \<Rightarrow> Some c | None \<Rightarrow> leftmost_language segs)"

section \<open>The invariant of the parser\<close>

text \<open>
  A parser state is numbered when the tracks it would return, were the input to end
  here, carry the ids 1, 2, ... in order.
\<close>

definition numbered :: "track list \<times> track option \<Rightarrow> bool" where
  "numbered st = (map track_id (close_last st) = [1..<Suc (length (close_last st))])"

section \<open>Example worlds and messages\<close>

text \<open>
  A world where every child process exits with code 0, no download succeeds, the only
  file on disk is \<^verbatim>\<open>out/track_1.srt\<close>, and the transport's answers return.
\<close>

definition only_track_1 :: world where
  "only_track_1 =
     \<lparr>fetch = (\<lambda>m. Inl (RuntimeError [])),
      run_process = (\<lambda>command. (0, [], [])),
      path_exists = (\<lambda>p. p = ''out/track_1.srt''),
      answer_after_pop = (\<lambda>t. None)\<rparr>"

text \<open>
  A report of two track blocks with an attribute line before the first, and a world whose
  probe prints it.
\<close>

definition two_track_report :: string where
  "two_track_report =
     ''Language: und'' @ [CHR 0x0A] @ ''|+ A track'' @ [CHR 0x0A] @ ''+ A track'' @ [CHR 0x0A]
     @ '' Track type: Video'' @ [CHR 0x0D, CHR 0x0A] @ ''  + A track ''"

definition probe_world :: world where
  "probe_world =
     \<lparr>fetch = (\<lambda>m. Inr ''downloads/7/movie.en.mkv''),
      run_process = (\<lambda>command. (0, two_track_report, [])),
      path_exists = (\<lambda>p. False),
      answer_after_pop = (\<lambda>t. None)\<rparr>"

text \<open>The same world, but the answer in \<^verbatim>\<open>remove_last_file\<close> raises.\<close>

definition failed_answer_world :: world where
  "failed_answer_world =
     probe_world\<lparr>answer_after_pop := (\<lambda>t. Some (RPCError ''QUERY_ID_INVALID''))\<rparr>"

text \<open>Messages of user 7: two documents, and a video and a document of 3 GB.\<close>

definition movie_msg :: tg_message where
  "movie_msg =
     \<lparr>from_user_id = 7,
      document = Some \<lparr>media_file_name = Some ''movie.en.mkv'', media_file_size = 700000000\<rparr>,
      video = None, audio = None\<rparr>"

definition subs_msg :: tg_message where
  "subs_msg =
     \<lparr>from_user_id = 7,
      document = Some \<lparr>media_file_name = Some ''subs.hi.srt'', media_file_size = 40000\<rparr>,
      video = None, audio = None\<rparr>"

definition big_video_msg :: tg_message where
  "big_video_msg =
     \<lparr>from_user_id = 7, document = None,
      video = Some \<lparr>media_file_name = Some ''big.mp4'', media_file_size = 3000000000\<rparr>,
      audio = None\<rparr>"

definition big_document_msg :: tg_message where
  "big_document_msg =
     \<lparr>from_user_id = 7,
      document = Some \<lparr>media_file_name = Some ''big.mp4'', media_file_size = 3000000000\<rparr>,
      video = None, audio = None\<rparr>"

text \<open>The two documents as they are staged, and the runs of events used below.\<close>

definition movie_file :: staged_file where
  "movie_file =
     \<lparr>message = movie_msg, file_name = ''movie.en.mkv'', file_type = ''video'',
      file_ext = ''.mkv'', language = Some ''en''\<rparr>"

definition subs_file :: staged_file where
  "subs_file =
     \<lparr>message = subs_msg, file_name = ''subs.hi.srt'', file_type = ''subtitles'',
      file_ext = ''.srt'', language = Some ''hi''\<rparr>"

definition delivered_answer_run :: "(world \<times> event) list" where
  "delivered_answer_run =
     [(probe_world, File_input movie_msg),
      (probe_world, Callback_query 7 ''extract_tracks''),
      (probe_world, Callback_query 7 ''remove_last_file'')]"

definition failed_answer_run :: "(world \<times> event) list" where
  "failed_answer_run =
     [(probe_world, File_input movie_msg),
      (probe_world, Callback_query 7 ''extract_tracks''),
      (failed_answer_world, Callback_query 7 ''remove_last_file'')]"

definition mux_then_remove_run :: "(world \<times> event) list" where
  "mux_then_remove_run =
     [(probe_world, File_input movie_msg),
      (probe_world, File_input subs_msg),
      (probe_world, Callback_query 7 ''mux_files''),
      (probe_world, Callback_query 7 ''remove_last_file'')]"

section \<open>Language detection follows the table\<close>

lemma scan_variants_iff: "scan_variants parts vs \<longleftrightarrow> set vs \<inter> set parts \<noteq> {}"
  by (induction vs) auto

lemma scan_languages_None:
  "scan_languages parts tbl = None \<longleftrightarrow> (\<forall>lv \<in> set tbl. set (snd lv) \<inter> set parts = {})"
  by (induction parts tbl rule: scan_languages.induct) (simp_all add: scan_variants_iff)

lemma scan_languages_first:
  "i < length tbl \<Longrightarrow> set (snd (tbl ! i)) \<inter> set parts \<noteq> {}
   \<Longrightarrow> (\<forall>j<i. set (snd (tbl ! j)) \<inter> set parts = {})
   \<Longrightarrow> scan_languages parts tbl = Some (fst (tbl ! i))"
proof (induction tbl arbitrary: i)
  case Nil
  then show ?case by simp
next
  case (Cons lv tbl)
  obtain c vs where lv: "lv = (c, vs)" by (cases lv)
  show ?case
  proof (cases i)
    case 0
    with Cons.prems lv show ?thesis by (simp add: scan_variants_iff)
  next
    case (Suc k)
    from Cons.prems(3) Suc have "set (snd ((lv # tbl) ! 0)) \<inter> set parts = {}" by blast
    then have no: "\<not> scan_variants parts vs" using lv by (simp add: scan_variants_iff)
    have "scan_languages parts tbl = Some (fst (tbl ! k))"
    proof (rule Cons.IH)
      show "k < length tbl" using Cons.prems(1) Suc by simp
      show "set (snd (tbl ! k)) \<inter> set parts \<noteq> {}" using Cons.prems(2) Suc by simp
      show "\<forall>j<k. set (snd (tbl ! j)) \<inter> set parts = {}"
      proof (intro allI impI)
        fix j assume "j < k"
        then have "Suc j < i" using Suc by simp
        with Cons.prems(3) have "set (snd ((lv # tbl) ! Suc j)) \<inter> set parts = {}" by blast
        then show "set (snd (tbl ! j)) \<inter> set parts = {}" by simp
      qed
    qed
    with no lv Suc show ?thesis by simp
  qed
qed

lemma name_parts_movie_en_hi: "name_parts ''movie.en.hi.mkv'' = [''movie'', ''en'', ''hi'']"
  by (simp add: name_parts_def stem_def path_name_def lower_def lower_char_def
      ascii_uppercase_def ascii_lowercase_def)

lemma name_parts_subs_eng: "name_parts ''Subs.ENG.srt'' = [''subs'', ''eng'']"
  by (simp add: name_parts_def stem_def path_name_def lower_def lower_char_def
      ascii_uppercase_def ascii_lowercase_def)

lemma name_parts_movie: "name_parts ''movie.mkv'' = [''movie'']"
  by (simp add: name_parts_def stem_def path_name_def lower_def lower_char_def
      ascii_uppercase_def ascii_lowercase_def)

text \<open>
  C5, as the claim states it, fails: in \<^verbatim>\<open>movie.en.hi.mkv\<close> the leftmost part that is a
  language variant is \<^verbatim>\<open>en\<close>, and the detector returns \<^verbatim>\<open>hi\<close>, the language that comes
  first in the table.
\<close>

theorem detect_language_leftmost_counterexample:
  "detect_language ''movie.en.hi.mkv'' = Some ''hi''
   \<and> leftmost_language (name_parts ''movie.en.hi.mkv'') = Some ''en''"
  by (simp add: name_parts_movie_en_hi detect_language_def LANGUAGE_CODES_def variant_language_def)

text \<open>
  C5, amended: the detector lower-cases the name, strips the extension and splits the base
  name at the dots; it returns no language exactly when no part is a variant of any
  language, and otherwise the code of the first language, in the order of the table,
  one of whose variants is among the parts, wherever that part stands in the name.
\<close>

theorem detect_language_table_order:
  "(detect_language filename = None \<longleftrightarrow>
      (\<forall>lv \<in> set LANGUAGE_CODES. set (snd lv) \<inter> set (name_parts filename) = {}))
   \<and> (\<forall>i < length LANGUAGE_CODES.
        set (snd (LANGUAGE_CODES ! i)) \<inter> set (name_parts filename) \<noteq> {}
        \<and> (\<forall>j<i. set (snd (LANGUAGE_CODES ! j)) \<inter> set (name_parts filename) = {})
        \<longrightarrow> detect_language filename = Some (fst (LANGUAGE_CODES ! i)))"
  unfolding detect_language_def
  using scan_languages_None scan_languages_first by blast

theorem detect_language_table_order_witness:
  "detect_language ''Subs.ENG.srt'' = Some ''en'' \<and> detect_language ''movie.mkv'' = None"
proof -
  have a: "(1::nat) < length LANGUAGE_CODES" by (simp add: LANGUAGE_CODES_def)
  have b: "set (snd (LANGUAGE_CODES ! 1)) \<inter> set (name_parts ''Subs.ENG.srt'') \<noteq> {}"
    by (simp add: name_parts_subs_eng LANGUAGE_CODES_def)
  have c: "\<forall>j<(1::nat). set (snd (LANGUAGE_CODES ! j)) \<inter> set (name_parts ''Subs.ENG.srt'') = {}"
    by (simp add: name_parts_subs_eng LANGUAGE_CODES_def)
  have d: "fst (LANGUAGE_CODES ! 1) = ''en''" by (simp add: LANGUAGE_CODES_def)
  have f: "\<forall>lv \<in> set LANGUAGE_CODES. set (snd lv) \<inter> set (name_parts ''movie.mkv'') = {}"
    by (simp add: name_parts_movie LANGUAGE_CODES_def)
  from detect_language_table_order [of "''Subs.ENG.srt''"] a b c d
  have "detect_language ''Subs.ENG.srt'' = Some ''en''" by metis
  moreover from detect_language_table_order [of "''movie.mkv''"] f
  have "detect_language ''movie.mkv'' = None" by blast
  ultimately show ?thesis by simp
qed

section \<open>Track ids of a probe\<close>

lemma startswith_set: "startswith s p \<Longrightarrow> set p \<subseteq> set s"
  by (induction s p rule: startswith.induct) auto

lemma contains_set: "contains sub s \<Longrightarrow> set sub \<subseteq> set s"
proof (induction s)
  case Nil
  then show ?case by simp
next
  case (Cons c cs)
  from Cons.prems have "startswith (c # cs) sub \<or> contains sub cs" by simp
  then show ?case
  proof
    assume "startswith (c # cs) sub"
    then show ?thesis by (rule startswith_set)
  next
    assume "contains sub cs"
    then have "set sub \<subseteq> set cs" by (rule Cons.IH)
    then show ?thesis by auto
  qed
qed

lemma split_on_not_Nil: "split_on sep s \<noteq> []"
  by (induction s) (auto split: list.splits)

lemma split_on_two: "sep \<in> set s \<Longrightarrow> \<exists>a b r. split_on sep s = a # b # r"
proof (induction s)
  case Nil
  then show ?case by simp
next
  case (Cons c cs)
  show ?case
  proof (cases "c = sep")
    case True
    obtain p ps where "split_on sep cs = p # ps"
      using split_on_not_Nil [of sep cs] by (cases "split_on sep cs") auto
    with True show ?thesis by simp
  next
    case False
    with Cons.prems have "sep \<in> set cs" by simp
    then obtain a b r where "split_on sep cs = a # b # r" using Cons.IH by blast
    with False show ?thesis by simp
  qed
qed

lemma second_field_ok:
  assumes "contains key line" and "CHR '':'' \<in> set key"
  shows "\<exists>v. second_field line = Inr v"
proof -
  from assms contains_set have "CHR '':'' \<in> set line" by blast
  then obtain a b r where "split_on CHR '':'' line = a # b # r" using split_on_two by blast
  then show ?thesis by (simp add: second_field_def)
qed

lemma parse_line_start:
  assumes "is_track_start raw"
  shows "parse_line st raw =
           Inr (close_last st, Some \<lparr>track_id = length (close_last st) + 1, track_type = None,
                                      track_codec = None, track_language = None\<rparr>)"
  using assms by (simp add: parse_line_def is_track_start_def close_last_def Let_def split: option.splits)

lemma parse_line_other:
  assumes "\<not> is_track_start raw"
  shows "\<exists>st'. parse_line st raw = Inr st' \<and> fst st' = fst st
           \<and> map_option track_id (snd st') = map_option track_id (snd st)"
proof -
  obtain ts cur where st: "st = (ts, cur)" by (cases st)
  show ?thesis
  proof (cases cur)
    case None
    with assms st show ?thesis by (simp add: parse_line_def is_track_start_def Let_def)
  next
    case (Some t)
    have k1: "contains ''Track type:'' (strip raw) \<Longrightarrow> \<exists>v. second_field (strip raw) = Inr v"
      using second_field_ok [of "''Track type:''" "strip raw"] by simp
    have k2: "contains ''Codec ID:'' (strip raw) \<Longrightarrow> \<exists>v. second_field (strip raw) = Inr v"
      using second_field_ok [of "''Codec ID:''" "strip raw"] by simp
    have k3: "contains ''Language:'' (strip raw) \<Longrightarrow> \<exists>v. second_field (strip raw) = Inr v"
      using second_field_ok [of "''Language:''" "strip raw"] by simp
    from assms Some st k1 k2 k3 show ?thesis
      by (auto simp: parse_line_def is_track_start_def Let_def)
  qed
qed

lemma close_last_eq:
  "fst st' = fst st \<Longrightarrow> map_option track_id (snd st') = map_option track_id (snd st)
   \<Longrightarrow> map track_id (close_last st') = map track_id (close_last st)"
  by (cases "snd st"; cases "snd st'") (auto simp: close_last_def)

lemma parse_line_step:
  assumes "numbered st"
  shows "\<exists>st'. parse_line st raw = Inr st' \<and> numbered st'
           \<and> length (close_last st') = length (close_last st) + (if is_track_start raw then 1 else 0)"
proof (cases "is_track_start raw")
  case True
  let ?n = "length (close_last st)"
  let ?st' = "(close_last st, Some \<lparr>track_id = ?n + 1, track_type = None,
                                      track_codec = None, track_language = None\<rparr>)"
  have "parse_line st raw = Inr ?st'" using True by (rule parse_line_start)
  moreover have "numbered ?st'"
    using assms by (simp add: numbered_def close_last_def)
  moreover have "length (close_last ?st') = ?n + 1" by (simp add: close_last_def)
  ultimately show ?thesis using True by simp
next
  case False
  then obtain st' where p: "parse_line st raw = Inr st'" and f: "fst st' = fst st"
    and s: "map_option track_id (snd st') = map_option track_id (snd st)"
    using parse_line_other by blast
  from f s have m: "map track_id (close_last st') = map track_id (close_last st)"
    by (rule close_last_eq)
  then have "length (close_last st') = length (close_last st)"
    by (metis length_map)
  with m assms p False show ?thesis by (simp add: numbered_def)
qed

lemma parse_lines_numbered:
  "numbered st \<Longrightarrow>
     \<exists>st'. parse_lines st ls = Inr st' \<and> numbered st'
       \<and> length (close_last st') = length (close_last st) + length (filter is_track_start ls)"
proof (induction ls arbitrary: st)
  case Nil
  then show ?case by simp
next
  case (Cons l ls)
  from parse_line_step [OF Cons.prems, of l] obtain st1 where
    p: "parse_line st l = Inr st1" and n: "numbered st1"
    and c: "length (close_last st1) = length (close_last st) + (if is_track_start l then 1 else 0)"
    by blast
  from Cons.IH [OF n] obtain st' where
    "parse_lines st1 ls = Inr st'" "numbered st'"
    "length (close_last st') = length (close_last st1) + length (filter is_track_start ls)"
    by blast
  with p c show ?case by simp
qed

lemma parse_mkvinfo_ids:
  "\<exists>tracks. parse_mkvinfo text = Inr tracks \<and> map track_id tracks = [1..<Suc (track_starts text)]"
proof -
  have "numbered ([], None)" by (simp add: numbered_def close_last_def)
  from parse_lines_numbered [OF this, of "splitlines text"] obtain st' where
    "parse_lines ([], None) (splitlines text) = Inr st'" "numbered st'"
    "length (close_last st') = track_starts text"
    by (auto simp: close_last_def track_starts_def)
  then show ?thesis by (simp add: parse_mkvinfo_def numbered_def)
qed

lemma parse_lines_before_first:
  "\<forall>l \<in> set pre. \<not> is_track_start l \<Longrightarrow>
     parse_lines ([], None) (pre @ rest) = parse_lines ([], None) rest"
  by (induction pre) (auto simp: parse_line_def is_track_start_def Let_def)

text \<open>
  C6: when the probe exits with code 0, parsing its report raises nothing and returns as
  many tracks as the report has track-start markers, with the ids 1, 2, ..., N in report
  order, the last block being closed at the end of the input; lines before the first
  marker leave the parser as it started, with no track.
\<close>

theorem get_mkv_tracks_ids:
  "(run_process w [''mkvinfo'', file_path] = (0, stdout, stderr) \<longrightarrow>
      (\<exists>tracks. get_mkv_tracks w file_path = Inr tracks
         \<and> map track_id tracks = [1..<Suc (track_starts stdout)]))
   \<and> ((\<forall>l \<in> set pre. \<not> is_track_start l) \<longrightarrow>
        parse_lines ([], None) (pre @ rest) = parse_lines ([], None) rest)"
  using parse_mkvinfo_ids parse_lines_before_first by (simp add: get_mkv_tracks_def)

lemma track_starts_two_track_report: "track_starts two_track_report = 2"
  by (simp add: track_starts_def two_track_report_def splitlines_def is_linebreak_def
      is_track_start_def strip_def isspace_def)

theorem get_mkv_tracks_ids_witness:
  "(\<exists>tracks. get_mkv_tracks probe_world ''in.mkv'' = Inr tracks \<and> map track_id tracks = [1, 2])
   \<and> parse_lines ([], None) ([''Language: und'', ''|+ A track''] @ [''+ A track''])
       = parse_lines ([], None) [''+ A track'']"
proof -
  have r: "run_process probe_world [''mkvinfo'', ''in.mkv''] = (0, two_track_report, [])"
    by (simp add: probe_world_def)
  have p: "\<forall>l \<in> set [''Language: und'', ''|+ A track'']. \<not> is_track_start l"
    by (simp add: is_track_start_def strip_def isspace_def)
  have u: "[1..<Suc (track_starts two_track_report)] = [1, 2]"
    by (simp add: track_starts_two_track_report upt_rec)
  note t = get_mkv_tracks_ids [of probe_world "''in.mkv''" two_track_report "[]"
      "[''Language: und'', ''|+ A track'']" "[''+ A track'']"]
  from t r have "\<exists>tracks. get_mkv_tracks probe_world ''in.mkv'' = Inr tracks
      \<and> map track_id tracks = [1..<Suc (track_starts two_track_report)]" by blast
  then have a: "\<exists>tracks. get_mkv_tracks probe_world ''in.mkv'' = Inr tracks
      \<and> map track_id tracks = [1, 2]"
    by (simp only: u)
  from t p have "parse_lines ([], None) ([''Language: und'', ''|+ A track''] @ [''+ A track''])
       = parse_lines ([], None) [''+ A track'']" by blast
  with a show ?thesis by blast
qed

section \<open>Extraction keeps the outputs that exist\<close>

lemma first_existing_find: "first_existing ex ps = find ex ps"
  by (induction ps) auto

lemma collect_extracted_map_filter:
  "collect_extracted w d acc tids =
     acc @ List.map_filter (\<lambda>tid. find (path_exists w) (candidates d tid)) tids"
  by (induction tids arbitrary: acc) (auto simp: first_existing_find split: option.splits)

text \<open>
  C7: when the extract process exits with code 0, the result lists, for the requested
  track ids in their order, the first candidate path that exists, the candidates being
  the track's output name with the extensions \<^verbatim>\<open>.mkv .mp4 .aac .srt .ass\<close> in this order;
  an id none of whose candidates exists adds nothing, and no error is raised.
\<close>

theorem extract_tracks_partial_output:
  assumes "run_process w (extract_command file_path track_ids output_dir) = (0, stdout, stderr)"
  shows "extract_tracks w file_path track_ids output_dir =
           Inr (List.map_filter (\<lambda>tid. find (path_exists w) (candidates output_dir tid)) track_ids)"
  using assms by (simp add: extract_tracks_def collect_extracted_map_filter)

lemma str_int_1: "str_int 1 = ''1''" by (simp add: str_int_def str_nat.simps)
lemma str_int_2: "str_int 2 = ''2''" by (simp add: str_int_def str_nat.simps)

lemma candidates_1: "candidates ''out'' 1 =
  [''out/track_1.mkv'', ''out/track_1.mp4'', ''out/track_1.aac'', ''out/track_1.srt'', ''out/track_1.ass'']"
  by (simp add: candidates_def extract_extensions_def path_join_def str_int_1)

lemma candidates_2: "candidates ''out'' 2 =
  [''out/track_2.mkv'', ''out/track_2.mp4'', ''out/track_2.aac'', ''out/track_2.srt'', ''out/track_2.ass'']"
  by (simp add: candidates_def extract_extensions_def path_join_def str_int_2)

theorem extract_tracks_partial_output_witness:
  "run_process only_track_1 (extract_command ''in.mkv'' [1, 2] ''out'') = (0, [], [])
   \<and> extract_tracks only_track_1 ''in.mkv'' [1, 2] ''out'' = Inr [''out/track_1.srt'']"
proof -
  have r: "run_process only_track_1 (extract_command ''in.mkv'' [1, 2] ''out'') = (0, [], [])"
    by (simp add: only_track_1_def)
  have "List.map_filter (\<lambda>tid. find (path_exists only_track_1) (candidates ''out'' tid)) [1, 2]
          = [''out/track_1.srt'']"
    by (simp add: candidates_1 candidates_2 only_track_1_def)
  with extract_tracks_partial_output [OF r] r show ?thesis by simp
qed

section \<open>The combine command\<close>

lemma foldl_snoc: "foldl (\<lambda>command file. command @ [file]) acc fs = acc @ fs"
  by (induction fs arbitrary: acc) auto

lemma mux_command_shape:
  "mux_command fs out opts =
     [''mkvmerge'', ''-o'', out] @ fs @
       (case opts ''title'' of None \<Rightarrow> [] | Some t \<Rightarrow> if t = [] then [] else [''--title'', t])"
  by (simp add: mux_command_def foldl_snoc split: option.splits)

text \<open>
  C8, amended: the command is the merge tool, \<^verbatim>\<open>-o\<close> and the output path, then the input
  paths in their order, and last \<^verbatim>\<open>--title\<close> with the title when the options hold a
  title that is not empty; a return code other than 0 raises the error that carries the
  standard error text, and return code 0 returns the output path.
\<close>

theorem mux_files_command_shape:
  "mux_command fs out opts =
     [''mkvmerge'', ''-o'', out] @ fs @
       (case opts ''title'' of None \<Rightarrow> [] | Some t \<Rightarrow> if t = [] then [] else [''--title'', t])
   \<and> mux_files w fs out opts =
       (case run_process w (mux_command fs out opts) of
          (returncode, stdout, stderr) \<Rightarrow>
            if returncode = 0 then Inr out
            else Inl (RuntimeError (''mkvmerge failed: '' @ stderr)))"
  by (simp add: mux_command_shape mux_files_def split: prod.splits)

text \<open>
  C8, as the claim states it, fails: the title flag comes after the input paths,
  not before them.
\<close>

theorem mux_files_title_first_counterexample:
  "mux_command [''a.mkv'', ''b.srt''] ''out.mkv'' [''title'' \<mapsto> ''T'']
     = [''mkvmerge'', ''-o'', ''out.mkv'', ''a.mkv'', ''b.srt'', ''--title'', ''T'']
   \<and> mux_command [''a.mkv'', ''b.srt''] ''out.mkv'' [''title'' \<mapsto> ''T'']
     \<noteq> [''mkvmerge'', ''-o'', ''out.mkv'', ''--title'', ''T'', ''a.mkv'', ''b.srt'']"
  by (simp add: mux_command_shape)

theorem mux_files_command_shape_witness:
  "mux_files only_track_1 [''a.mkv'', ''b.srt''] ''out.mkv'' [''title'' \<mapsto> ''T''] = Inr ''out.mkv''
   \<and> mux_command [''a.mkv'', ''b.srt''] ''out.mkv'' Map.empty = [''mkvmerge'', ''-o'', ''out.mkv'', ''a.mkv'', ''b.srt'']"
  using mux_files_command_shape [of "[''a.mkv'', ''b.srt'']" "''out.mkv''" "[''title'' \<mapsto> ''T'']" only_track_1]
    mux_files_command_shape [of "[''a.mkv'', ''b.srt'']" "''out.mkv''" "Map.empty" only_track_1]
  by (simp add: only_track_1_def)

text \<open>
  C10: the command carries \<^verbatim>\<open>--title\<close> only for a title that is not empty. With no
  title or an empty one the command is the tool, the output flag and the input paths, so
  no title flag appears in it (unless a path is spelled that way), and an empty title
  gives the same command as no title; a title that is not empty adds the flag and the title.
\<close>

theorem mux_files_title_truthy:
  "(opts ''title'' = None \<or> opts ''title'' = Some [] \<longrightarrow>
      mux_command fs out opts = [''mkvmerge'', ''-o'', out] @ fs)
   \<and> (\<forall>t. opts ''title'' = Some t \<and> t \<noteq> [] \<longrightarrow>
        mux_command fs out opts = [''mkvmerge'', ''-o'', out] @ fs @ [''--title'', t])
   \<and> mux_command fs out (opts(''title'' \<mapsto> [])) = mux_command fs out (opts(''title'' := None))
   \<and> ((opts ''title'' = None \<or> opts ''title'' = Some []) \<and> ''--title'' \<notin> set fs \<and> out \<noteq> ''--title''
        \<longrightarrow> ''--title'' \<notin> set (mux_command fs out opts))"
  by (auto simp: mux_command_shape)

theorem mux_files_title_truthy_witness:
  "mux_command [''a.mkv'', ''b.srt''] ''out.mkv'' [''title'' \<mapsto> []]
     = [''mkvmerge'', ''-o'', ''out.mkv'', ''a.mkv'', ''b.srt'']
   \<and> mux_command [''a.mkv'', ''b.srt''] ''out.mkv'' [''title'' \<mapsto> ''Movie'']
     = [''mkvmerge'', ''-o'', ''out.mkv'', ''a.mkv'', ''b.srt'', ''--title'', ''Movie'']
   \<and> ''--title'' \<notin> set (mux_command [''a.mkv'', ''b.srt''] ''out.mkv'' [''title'' \<mapsto> []])"
proof -
  note e = mux_files_title_truthy [of "[''title'' \<mapsto> []]" "[''a.mkv'', ''b.srt'']" "''out.mkv''"]
  note m = mux_files_title_truthy [of "[''title'' \<mapsto> ''Movie'']" "[''a.mkv'', ''b.srt'']" "''out.mkv''"]
  have a: "[''title'' \<mapsto> []] ''title'' = None \<or> [''title'' \<mapsto> []] ''title'' = Some []"
    by simp
  have b: "''--title'' \<notin> set [''a.mkv'', ''b.srt''] \<and> ''out.mkv'' \<noteq> ''--title''"
    by simp
  have c: "[''title'' \<mapsto> ''Movie''] ''title'' = Some ''Movie'' \<and> ''Movie'' \<noteq> []"
    by simp
  from e a have 1: "mux_command [''a.mkv'', ''b.srt''] ''out.mkv'' [''title'' \<mapsto> []]
     = [''mkvmerge'', ''-o'', ''out.mkv''] @ [''a.mkv'', ''b.srt'']" by blast
  from m c have 2: "mux_command [''a.mkv'', ''b.srt''] ''out.mkv'' [''title'' \<mapsto> ''Movie'']
     = [''mkvmerge'', ''-o'', ''out.mkv''] @ [''a.mkv'', ''b.srt''] @ [''--title'', ''Movie'']" by blast
  from e a b have 3: "''--title'' \<notin> set (mux_command [''a.mkv'', ''b.srt''] ''out.mkv'' [''title'' \<mapsto> []])"
    by blast
  from 1 2 3 show ?thesis by simp
qed

section \<open>Evaluating the example runs\<close>

lemma fst_caught:
  "fst (case r of (us', Inl e) \<Rightarrow> (us', a) | (us', Inr outs) \<Rightarrow> (us', outs)) = fst r"
  by (cases r) (auto split: sum.splits)

lemma handle_file_input_accept:
  assumes "message_file_name m = Some fname" and "fname \<noteq> []"
    and "lookup_file_type (lower (suffix fname)) SUPPORTED_EXTENSIONS = Some ftype"
    and "\<not> (case document m of Some d \<Rightarrow> media_file_size d > mx | None \<Rightarrow> False)"
  shows "handle_file_input mx us m =
           (let s = (case us (from_user_id m) of None \<Rightarrow> new_session | Some s \<Rightarrow> s);
                s' = s\<lparr>files := files s @
                        [\<lparr>message = m, file_name = fname, file_type = ftype,
                          file_ext = lower (suffix fname), language = detect_language fname\<rparr>]\<rparr>
            in (us(from_user_id m \<mapsto> s'), [show_action_buttons s']))"
  using assms by (simp add: handle_file_input_def Let_def)

lemma ext_movie: "lower (suffix ''movie.en.mkv'') = ''.mkv''"
  by (simp add: suffix_def path_name_def lower_def lower_char_def
      ascii_uppercase_def ascii_lowercase_def)

lemma ext_subs: "lower (suffix ''subs.hi.srt'') = ''.srt''"
  by (simp add: suffix_def path_name_def lower_def lower_char_def
      ascii_uppercase_def ascii_lowercase_def)

lemma ext_big: "lower (suffix ''big.mp4'') = ''.mp4''"
  by (simp add: suffix_def path_name_def lower_def lower_char_def
      ascii_uppercase_def ascii_lowercase_def)

lemma lang_movie: "detect_language ''movie.en.mkv'' = Some ''en''"
  by (simp add: detect_language_def name_parts_def stem_def path_name_def lower_def lower_char_def
      ascii_uppercase_def ascii_lowercase_def LANGUAGE_CODES_def)

lemma lang_subs: "detect_language ''subs.hi.srt'' = Some ''hi''"
  by (simp add: detect_language_def name_parts_def stem_def path_name_def lower_def lower_char_def
      ascii_uppercase_def ascii_lowercase_def LANGUAGE_CODES_def)

lemma file_input_movie:
  "fst (handle_file_input 2000000000 Map.empty movie_msg)
     = [7 \<mapsto> \<lparr>files = [movie_file], current_operation = None, processing = False\<rparr>]"
proof -
  have "handle_file_input 2000000000 Map.empty movie_msg =
           (let s = (case Map.empty (from_user_id movie_msg) of None \<Rightarrow> new_session | Some s \<Rightarrow> s);
                s' = s\<lparr>files := files s @
                        [\<lparr>message = movie_msg, file_name = ''movie.en.mkv'', file_type = ''video'',
                          file_ext = lower (suffix ''movie.en.mkv''),
                          language = detect_language ''movie.en.mkv''\<rparr>]\<rparr>
            in (Map.empty(from_user_id movie_msg \<mapsto> s'), [show_action_buttons s']))"
    by (rule handle_file_input_accept)
      (simp_all add: movie_msg_def message_file_name_def ext_movie SUPPORTED_EXTENSIONS_def)
  then show ?thesis
    by (simp add: Let_def ext_movie lang_movie new_session_def movie_file_def)
      (simp add: movie_msg_def)
qed

lemma file_input_subs:
  "fst (handle_file_input 2000000000
          [7 \<mapsto> \<lparr>files = [movie_file], current_operation = None, processing = False\<rparr>] subs_msg)
     = [7 \<mapsto> \<lparr>files = [movie_file, subs_file], current_operation = None, processing = False\<rparr>]"
proof -
  let ?us = "[7 \<mapsto> \<lparr>files = [movie_file], current_operation = None, processing = False\<rparr>]"
  have "handle_file_input 2000000000 ?us subs_msg =
           (let s = (case ?us (from_user_id subs_msg) of None \<Rightarrow> new_session | Some s \<Rightarrow> s);
                s' = s\<lparr>files := files s @
                        [\<lparr>message = subs_msg, file_name = ''subs.hi.srt'', file_type = ''subtitles'',
                          file_ext = lower (suffix ''subs.hi.srt''),
                          language = detect_language ''subs.hi.srt''\<rparr>]\<rparr>
            in (?us(from_user_id subs_msg \<mapsto> s'), [show_action_buttons s']))"
    by (rule handle_file_input_accept)
      (simp_all add: subs_msg_def message_file_name_def ext_subs SUPPORTED_EXTENSIONS_def)
  then show ?thesis
    by (simp add: Let_def ext_subs lang_subs subs_file_def)
      (simp add: subs_msg_def)
qed


section \<open>Selecting an action, removing a file\<close>

lemma callback_extract_accept:
  assumes "us user_id = Some s" and "length (files s) = 1" and "file_type (files s ! 0) = ''video''"
  shows "fst (handle_callback_query w us user_id ''extract_tracks'')
           = us(user_id \<mapsto> s\<lparr>current_operation := Some ''extract_tracks''\<rparr>)"
  using assms by (auto simp: handle_callback_query_def handle_extract_tracks_def split: sum.splits)

lemma callback_extract_reject:
  assumes "us user_id = Some s" and "\<not> (length (files s) = 1 \<and> file_type (files s ! 0) = ''video'')"
  shows "handle_callback_query w us user_id ''extract_tracks''
           = (us, [Answer ''Please send a single video file first.''])"
  using assms by (auto simp: handle_callback_query_def handle_extract_tracks_def)

lemma callback_metadata_accept:
  assumes "us user_id = Some s" and "length (files s) = 1" and "file_type (files s ! 0) = ''video''"
  shows "fst (handle_callback_query w us user_id ''edit_metadata'')
           = us(user_id \<mapsto> s\<lparr>current_operation := Some ''edit_metadata''\<rparr>)"
  using assms by (simp add: handle_callback_query_def fst_caught handle_edit_metadata_def)

lemma callback_metadata_reject:
  assumes "us user_id = Some s" and "\<not> (length (files s) = 1 \<and> file_type (files s ! 0) = ''video'')"
  shows "handle_callback_query w us user_id ''edit_metadata''
           = (us, [Answer ''Please send a single video file first.''])"
  using assms by (auto simp: handle_callback_query_def handle_edit_metadata_def)

lemma callback_mux_accept:
  assumes "us user_id = Some s" and "2 \<le> length (files s)"
  shows "fst (handle_callback_query w us user_id ''mux_files'')
           = us(user_id \<mapsto> s\<lparr>current_operation := Some ''mux_files''\<rparr>)"
  using assms by (simp add: handle_callback_query_def fst_caught handle_mux_files_def)

lemma callback_mux_reject:
  assumes "us user_id = Some s" and "length (files s) < 2"
  shows "handle_callback_query w us user_id ''mux_files''
           = (us, [Answer ''Please send at least 2 files to mux.''])"
  using assms by (simp add: handle_callback_query_def handle_mux_files_def)

lemma callback_merge_accept:
  assumes "us user_id = Some s" and "2 \<le> length (files s)"
  shows "fst (handle_callback_query w us user_id ''merge_files'')
           = us(user_id \<mapsto> s\<lparr>current_operation := Some ''merge_files''\<rparr>)"
  using assms by (simp add: handle_callback_query_def fst_caught handle_merge_files_def)

lemma callback_merge_reject:
  assumes "us user_id = Some s" and "length (files s) < 2"
  shows "handle_callback_query w us user_id ''merge_files''
           = (us, [Answer ''Please send at least 2 files to merge.''])"
  using assms by (simp add: handle_callback_query_def handle_merge_files_def)

lemma callback_remove:
  assumes "us user_id = Some s" and "files s \<noteq> []"
    and "answer_after_pop w (''Removed: '' @ file_name (last (files s))) = None"
  shows "handle_callback_query w us user_id ''remove_last_file'' =
           (if butlast (files s) = []
            then (us(user_id := None),
                  [Answer (''Removed: '' @ file_name (last (files s))),
                   Edit_text ''All files removed. Send a file to start again.'' []])
            else (us(user_id \<mapsto> s\<lparr>files := butlast (files s)\<rparr>),
                  [Answer (''Removed: '' @ file_name (last (files s))),
                   show_action_buttons (s\<lparr>files := butlast (files s)\<rparr>)]))"
  using assms by (simp add: handle_callback_query_def remove_last_file_def Let_def)

lemma callback_remove_failed:
  assumes "us user_id = Some s" and "files s \<noteq> []"
    and "answer_after_pop w (''Removed: '' @ file_name (last (files s))) = Some e"
  shows "handle_callback_query w us user_id ''remove_last_file'' =
           (us(user_id \<mapsto> s\<lparr>files := butlast (files s)\<rparr>),
            [Answer ''An error occurred. Please try again.''])"
  using assms by (simp add: handle_callback_query_def remove_last_file_def Let_def)

text \<open>
  C2: for a user with a session, selecting \<^verbatim>\<open>extract_tracks\<close> or \<^verbatim>\<open>edit_metadata\<close> sets
  the current operation when the session holds exactly one file and it is a video, and
  otherwise answers with a rejection and leaves the sessions as they were; selecting
  \<^verbatim>\<open>mux_files\<close> or \<^verbatim>\<open>merge_files\<close> sets the current operation when the session holds at
  least two files, and otherwise answers with a rejection and leaves the sessions as
  they were.
\<close>

theorem action_selection_preconditions:
  assumes "us user_id = Some s"
  shows
    "(data = ''extract_tracks'' \<or> data = ''edit_metadata'' \<longrightarrow>
        (if length (files s) = 1 \<and> file_type (files s ! 0) = ''video''
         then fst (handle_callback_query w us user_id data)
                = us(user_id \<mapsto> s\<lparr>current_operation := Some data\<rparr>)
         else handle_callback_query w us user_id data
                = (us, [Answer ''Please send a single video file first.''])))
     \<and> (data = ''mux_files'' \<or> data = ''merge_files'' \<longrightarrow>
        (if 2 \<le> length (files s)
         then fst (handle_callback_query w us user_id data)
                = us(user_id \<mapsto> s\<lparr>current_operation := Some data\<rparr>)
         else handle_callback_query w us user_id data
                = (us, [Answer (''Please send at least 2 files to ''
                                 @ (if data = ''mux_files'' then ''mux.'' else ''merge.''))])))"
proof (intro conjI impI)
  assume "data = ''extract_tracks'' \<or> data = ''edit_metadata''"
  then show "if length (files s) = 1 \<and> file_type (files s ! 0) = ''video''
         then fst (handle_callback_query w us user_id data)
                = us(user_id \<mapsto> s\<lparr>current_operation := Some data\<rparr>)
         else handle_callback_query w us user_id data
                = (us, [Answer ''Please send a single video file first.''])"
    using assms callback_extract_accept [of us user_id s w] callback_extract_reject [of us user_id s w]
      callback_metadata_accept [of us user_id s w] callback_metadata_reject [of us user_id s w]
    by (cases "length (files s) = 1 \<and> file_type (files s ! 0) = ''video''") auto
next
  assume "data = ''mux_files'' \<or> data = ''merge_files''"
  then show "if 2 \<le> length (files s)
         then fst (handle_callback_query w us user_id data)
                = us(user_id \<mapsto> s\<lparr>current_operation := Some data\<rparr>)
         else handle_callback_query w us user_id data
                = (us, [Answer (''Please send at least 2 files to ''
                                 @ (if data = ''mux_files'' then ''mux.'' else ''merge.''))])"
    using assms callback_mux_accept [of us user_id s w] callback_mux_reject [of us user_id s w]
      callback_merge_accept [of us user_id s w] callback_merge_reject [of us user_id s w]
    by (cases "2 \<le> length (files s)") auto
qed

text \<open>
  C4, amended: removing the last file takes the most recently added file off the session;
  when the answer that names the removed file is delivered, the session is deleted if no
  file remains, and otherwise it stays with the remaining files, its current operation as
  it was before, and the action buttons are shown again.
\<close>

theorem remove_last_file_keeps_operation:
  assumes "us user_id = Some s" and "files s \<noteq> []"
    and "answer_after_pop w (''Removed: '' @ file_name (last (files s))) = None"
  shows "handle_callback_query w us user_id ''remove_last_file'' =
           (if butlast (files s) = []
            then (us(user_id := None),
                  [Answer (''Removed: '' @ file_name (last (files s))),
                   Edit_text ''All files removed. Send a file to start again.'' []])
            else (us(user_id \<mapsto> s\<lparr>files := butlast (files s)\<rparr>),
                  [Answer (''Removed: '' @ file_name (last (files s))),
                   show_action_buttons (s\<lparr>files := butlast (files s)\<rparr>)]))
         \<and> (butlast (files s) \<noteq> [] \<longrightarrow>
              map_option current_operation
                (fst (handle_callback_query w us user_id ''remove_last_file'') user_id)
              = Some (current_operation s))"
  using assms callback_remove [of us user_id s w] by simp

lemma run_extract_then_remove:
  "run 2000000000 Map.empty
     [(probe_world, File_input movie_msg),
      (probe_world, Callback_query 7 ''extract_tracks''),
      (w, Callback_query 7 ''remove_last_file'')]
     = fst (handle_callback_query w
              [7 \<mapsto> \<lparr>files = [movie_file], current_operation = Some ''extract_tracks'',
                        processing = False\<rparr>]
              7 ''remove_last_file'')"
proof -
  let ?s = "\<lparr>files = [movie_file], current_operation = None, processing = False\<rparr>"
  have "fst (handle_callback_query probe_world [7 \<mapsto> ?s] 7 ''extract_tracks'')
          = [7 \<mapsto> ?s\<lparr>current_operation := Some ''extract_tracks''\<rparr>]"
    using callback_extract_accept [of "[7 \<mapsto> ?s]" 7 ?s probe_world]
    by (simp add: movie_file_def)
  then show ?thesis by (simp add: file_input_movie)
qed

lemma run_mux_then_remove_run:
  "run 2000000000 Map.empty mux_then_remove_run
     = [7 \<mapsto> \<lparr>files = [movie_file], current_operation = Some ''mux_files'', processing = False\<rparr>]"
proof -
  let ?s = "\<lparr>files = [movie_file, subs_file], current_operation = None, processing = False\<rparr>"
  let ?t = "\<lparr>files = [movie_file, subs_file], current_operation = Some ''mux_files'', processing = False\<rparr>"
  have a: "fst (handle_callback_query probe_world [7 \<mapsto> ?s] 7 ''mux_files'') = [7 \<mapsto> ?t]"
    using callback_mux_accept [of "[7 \<mapsto> ?s]" 7 ?s probe_world] by simp
  have b: "fst (handle_callback_query probe_world [7 \<mapsto> ?t] 7 ''remove_last_file'')
          = [7 \<mapsto> \<lparr>files = [movie_file], current_operation = Some ''mux_files'', processing = False\<rparr>]"
    using callback_remove [of "[7 \<mapsto> ?t]" 7 ?t probe_world] by (simp add: probe_world_def)
  show ?thesis by (simp add: mux_then_remove_run_def file_input_movie file_input_subs a b)
qed

text \<open>
  C4, as the claim states it, fails: after two files, the choice of \<^verbatim>\<open>mux_files\<close> and the
  removal of the last file, the session holds one file and its current operation is still
  \<^verbatim>\<open>mux_files\<close>.
\<close>

theorem remove_last_file_reset_counterexample:
  "map_option current_operation (run 2000000000 Map.empty mux_then_remove_run 7)
     = Some (Some ''mux_files'')
   \<and> map_option (length \<circ> files) (run 2000000000 Map.empty mux_then_remove_run 7) = Some 1"
  by (simp add: run_mux_then_remove_run)

text \<open>
  C1 at a failing input: a video is staged, \<^verbatim>\<open>extract_tracks\<close> sets the current operation,
  and the last file is removed. When the answer that names the removed file raises, the
  handler ends with the session still in place, its operation set and no file staged;
  when the answer returns, the session is deleted.
\<close>

theorem failed_answer_leaves_empty_session:
  "run 2000000000 Map.empty failed_answer_run 7
     = Some \<lparr>files = [], current_operation = Some ''extract_tracks'', processing = False\<rparr>
   \<and> run 2000000000 Map.empty delivered_answer_run 7 = None"
proof -
  let ?s = "\<lparr>files = [movie_file], current_operation = Some ''extract_tracks'',
             processing = False\<rparr>"
  have f: "handle_callback_query failed_answer_world [7 \<mapsto> ?s] 7 ''remove_last_file''
             = ([7 \<mapsto> ?s\<lparr>files := butlast (files ?s)\<rparr>],
                [Answer ''An error occurred. Please try again.''])"
    using callback_remove_failed [of "[7 \<mapsto> ?s]" 7 ?s failed_answer_world
        "RPCError ''QUERY_ID_INVALID''"]
    by (simp add: failed_answer_world_def)
  have d: "handle_callback_query probe_world [7 \<mapsto> ?s] 7 ''remove_last_file''
             = (Map.empty,
                [Answer (''Removed: '' @ file_name (last (files ?s))),
                 Edit_text ''All files removed. Send a file to start again.'' []])"
    using callback_remove [of "[7 \<mapsto> ?s]" 7 ?s probe_world]
    by (simp add: probe_world_def)
  have "run 2000000000 Map.empty failed_answer_run 7
          = Some \<lparr>files = [], current_operation = Some ''extract_tracks'', processing = False\<rparr>"
    by (simp only: failed_answer_run_def run_extract_then_remove f) simp
  moreover have "run 2000000000 Map.empty delivered_answer_run 7 = None"
    by (simp only: delivered_answer_run_def run_extract_then_remove d) simp
  ultimately show ?thesis by simp
qed

theorem action_selection_preconditions_witness:
  "fst (handle_callback_query probe_world
          [7 \<mapsto> \<lparr>files = [movie_file], current_operation = None, processing = False\<rparr>]
          7 ''extract_tracks'')
     = [7 \<mapsto> \<lparr>files = [movie_file], current_operation = Some ''extract_tracks'', processing = False\<rparr>]
   \<and> handle_callback_query probe_world
          [7 \<mapsto> \<lparr>files = [movie_file], current_operation = None, processing = False\<rparr>]
          7 ''mux_files''
     = ([7 \<mapsto> \<lparr>files = [movie_file], current_operation = None, processing = False\<rparr>],
        [Answer ''Please send at least 2 files to mux.''])"
proof -
  let ?s = "\<lparr>files = [movie_file], current_operation = None, processing = False\<rparr>"
  have u: "[7 \<mapsto> ?s] (7::int) = Some ?s" by simp
  have v: "length (files ?s) = 1 \<and> file_type (files ?s ! 0) = ''video''"
    by (simp add: movie_file_def)
  have n: "\<not> 2 \<le> length (files ?s)" by simp
  from u v action_selection_preconditions [where us = "[7 \<mapsto> ?s]" and user_id = 7 and s = ?s
      and data = "''extract_tracks''" and w = probe_world]
  have a: "fst (handle_callback_query probe_world [7 \<mapsto> ?s] 7 ''extract_tracks'')
             = [7 \<mapsto> ?s\<lparr>current_operation := Some ''extract_tracks''\<rparr>]"
    by simp
  from u n action_selection_preconditions [where us = "[7 \<mapsto> ?s]" and user_id = 7 and s = ?s
      and data = "''mux_files''" and w = probe_world]
  have b: "handle_callback_query probe_world [7 \<mapsto> ?s] 7 ''mux_files''
             = ([7 \<mapsto> ?s], [Answer ''Please send at least 2 files to mux.''])"
    by simp
  from a b show ?thesis by simp
qed

theorem remove_last_file_keeps_operation_witness:
  "fst (handle_callback_query probe_world
          [7 \<mapsto> \<lparr>files = [movie_file, subs_file], current_operation = Some ''mux_files'',
                   processing = False\<rparr>]
          7 ''remove_last_file'')
     = [7 \<mapsto> \<lparr>files = [movie_file], current_operation = Some ''mux_files'', processing = False\<rparr>]
   \<and> fst (handle_callback_query probe_world
          [7 \<mapsto> \<lparr>files = [movie_file], current_operation = None, processing = False\<rparr>]
          7 ''remove_last_file'')
     = Map.empty"
proof -
  let ?t = "\<lparr>files = [movie_file, subs_file], current_operation = Some ''mux_files'',
             processing = False\<rparr>"
  let ?s = "\<lparr>files = [movie_file], current_operation = None, processing = False\<rparr>"
  have u: "[7 \<mapsto> ?t] (7::int) = Some ?t" "files ?t \<noteq> []"
    "answer_after_pop probe_world (''Removed: '' @ file_name (last (files ?t))) = None"
    by (simp_all add: probe_world_def)
  have v: "[7 \<mapsto> ?s] (7::int) = Some ?s" "files ?s \<noteq> []"
    "answer_after_pop probe_world (''Removed: '' @ file_name (last (files ?s))) = None"
    by (simp_all add: probe_world_def)
  from u remove_last_file_keeps_operation [where us = "[7 \<mapsto> ?t]" and user_id = 7 and s = ?t
      and w = probe_world]
  have a: "fst (handle_callback_query probe_world [7 \<mapsto> ?t] 7 ''remove_last_file'')
             = [7 \<mapsto> ?t\<lparr>files := [movie_file]\<rparr>]"
    by simp
  from v remove_last_file_keeps_operation [where us = "[7 \<mapsto> ?s]" and user_id = 7 and s = ?s
      and w = probe_world]
  have b: "fst (handle_callback_query probe_world [7 \<mapsto> ?s] 7 ''remove_last_file'') = Map.empty"
    by simp
  from a b show ?thesis by simp
qed

section \<open>The size check of incoming files\<close>

lemma handle_file_input_too_large:
  assumes "document m = Some d" and "media_file_size d > mx"
  shows "handle_file_input mx us m
           = (us, [Reply_text (''File is too large! Max size is '' @ str_int (mx div 1000000) @ ''MB.'')])"
  using assms by (simp add: handle_file_input_def)

lemma handle_file_input_no_size_check:
  assumes "document m = None"
  shows "handle_file_input mx us m = handle_file_input mx' us m"
  using assms by (simp add: handle_file_input_def)

lemma handle_file_input_unsupported:
  assumes "message_file_name m = Some fname" and "fname \<noteq> []"
    and "lookup_file_type (lower (suffix fname)) SUPPORTED_EXTENSIONS = None"
    and "\<not> (case document m of Some d \<Rightarrow> media_file_size d > mx | None \<Rightarrow> False)"
  shows "handle_file_input mx us m
           = (us, [Reply_text (''Unsupported file type: '' @ lower (suffix fname))])"
  using assms by (simp add: handle_file_input_def Let_def)

lemma str_int_2000: "str_int 2000 = ''2000''"
  by (simp add: str_int_def str_nat.simps)

text \<open>
  C3 at a failing input: with the limit at 2 GB, a document of 3 GB is rejected as too
  large, while the same file sent as a video is staged.
\<close>

theorem file_size_check_skips_video:
  "handle_file_input 2000000000 Map.empty big_document_msg
     = (Map.empty, [Reply_text ''File is too large! Max size is 2000MB.''])
   \<and> map_option (map file_name \<circ> files)
        (fst (handle_file_input 2000000000 Map.empty big_video_msg) 7) = Some [''big.mp4'']"
proof -
  have a: "handle_file_input 2000000000 Map.empty big_document_msg
     = (Map.empty, [Reply_text ''File is too large! Max size is 2000MB.''])"
    using handle_file_input_too_large [of big_document_msg _ 2000000000 Map.empty]
    by (simp add: big_document_msg_def str_int_2000)
  have "handle_file_input 2000000000 Map.empty big_video_msg =
           (let s = (case Map.empty (from_user_id big_video_msg) of None \<Rightarrow> new_session | Some s \<Rightarrow> s);
                s' = s\<lparr>files := files s @
                        [\<lparr>message = big_video_msg, file_name = ''big.mp4'', file_type = ''video'',
                          file_ext = lower (suffix ''big.mp4''),
                          language = detect_language ''big.mp4''\<rparr>]\<rparr>
            in (Map.empty(from_user_id big_video_msg \<mapsto> s'), [show_action_buttons s']))"
    by (rule handle_file_input_accept)
      (simp_all add: big_video_msg_def message_file_name_def ext_big SUPPORTED_EXTENSIONS_def)
  then have b: "map_option (map file_name \<circ> files)
        (fst (handle_file_input 2000000000 Map.empty big_video_msg) 7) = Some [''big.mp4'']"
    by (simp add: Let_def new_session_def) (simp add: big_video_msg_def)
  from a b show ?thesis by simp
qed

section \<open>Progress with a total of zero\<close>

lemma progress_zero_total_raises:
  assumes "1 \<le> now - last_update st"
  shows "progress start_time now st current 0 = Inl ZeroDivisionError"
  using assms by (simp add: progress_def Let_def)

text \<open>
  C9 at a failing input: a progress callback with a total of zero, five seconds after the
  start, raises a division by zero, where a total of 1024 gives an update.
\<close>

theorem progress_zero_total:
  "progress 100 105 \<lparr>last_update = 0, downloaded = 0\<rparr> 0 0 = Inl ZeroDivisionError
   \<and> progress 100 105 \<lparr>last_update = 0, downloaded = 0\<rparr> 512 1024
       = Inr (\<lparr>last_update = 105, downloaded = 512\<rparr>,
              Some \<lparr>percent = 50, speed = 1 / 10240, size_mb = 1 / 2048, total_mb = 1 / 1024\<rparr>)"
  by (simp add: progress_def Let_def)

end
